theory Spec2Isabelle
  imports Complex_Main "HOL-Library.Multiset" "HOL-Library.Sublist"
begin

section \<open>JavaScript primitives used by the services\<close>

text \<open>
  Strings are lists of code units; the model takes the code units below 256, so a
  JavaScript string is a \<^typ>\<open>string\<close>. Array and string indices are \<^typ>\<open>int\<close>, because
  the source computes negative ones.
\<close>

text \<open>\<^verbatim>\<open>Array.prototype.slice(start, end)\<close> and \<^verbatim>\<open>String.prototype.slice(start, end)\<close>:
  a negative index counts from the end, and both indices are clamped to the length.\<close>

definition js_slice :: "'a list \<Rightarrow> int \<Rightarrow> int \<Rightarrow> 'a list" where
  "js_slice xs start end =
     (let len = int (length xs);
          k = (if start < 0 then max (len + start) 0 else min start len);
          final = (if end < 0 then max (len + end) 0 else min end len)
      in take (nat (final - k)) (drop (nat k) xs))"

text \<open>\<^verbatim>\<open>slice(start)\<close>: the end defaults to the length.\<close>

definition js_slice_from :: "'a list \<Rightarrow> int \<Rightarrow> 'a list" where
  "js_slice_from xs start = js_slice xs start (int (length xs))"

text \<open>The white space and line terminators that \<^verbatim>\<open>String.prototype.trim\<close> strips, among the
  code units below 256: TAB, LF, VT, FF, CR, SP and NBSP.\<close>

definition is_js_whitespace :: "char \<Rightarrow> bool" where
  "is_js_whitespace c \<longleftrightarrow>
     c \<in> {CHR 0x09, CHR 0x0A, CHR 0x0B, CHR 0x0C, CHR 0x0D, CHR 0x20, CHR 0xA0}"

definition js_trim :: "string \<Rightarrow> string" where
  "js_trim s = rev (dropWhile is_js_whitespace (rev (dropWhile is_js_whitespace s)))"

text \<open>\<^verbatim>\<open>text.lastIndexOf(searchString, position)\<close>: the largest index \<open>k\<close>, not larger than
  the position clamped into \<open>[0, length]\<close>, at which the search string occurs; \<open>-1\<close> when there
  is none.\<close>

definition occurs_at :: "string \<Rightarrow> string \<Rightarrow> nat \<Rightarrow> bool" where
  "occurs_at text s k \<longleftrightarrow> k + length s \<le> length text \<and> take (length s) (drop k text) = s"

fun lastIndexOf_from :: "string \<Rightarrow> string \<Rightarrow> nat \<Rightarrow> int" where
  "lastIndexOf_from text s 0 = (if occurs_at text s 0 then 0 else - 1)"
| "lastIndexOf_from text s (Suc k) =
     (if occurs_at text s (Suc k) then int (Suc k) else lastIndexOf_from text s k)"

definition lastIndexOf :: "string \<Rightarrow> string \<Rightarrow> int \<Rightarrow> int" where
  "lastIndexOf text s position =
     lastIndexOf_from text s (nat (min (max position 0) (int (length text))))"

section \<open>Chunker: \<^verbatim>\<open>src/utils/textSplitter.js\<close>\<close>

text \<open>One round of the \<^verbatim>\<open>while\<close> loop of \<^verbatim>\<open>splitText\<close> computes the end of the chunk that
  begins at \<open>start\<close>: \<open>start + chunkSize\<close>, moved back to just past the last full stop or
  paragraph break when that lies after \<open>start\<close>.\<close>

definition chunk_end :: "int \<Rightarrow> string \<Rightarrow> int \<Rightarrow> int" where
  "chunk_end chunkSize text start =
     (let end = start + chunkSize in
      if end < int (length text) then
        (let sentenceEnd = lastIndexOf text ''.'' end;
             paragraphEnd = lastIndexOf text ''\<newline>\<newline>'' end;
             breakPoint = max sentenceEnd paragraphEnd
         in if breakPoint > start then breakPoint + 1 else end)
      else end)"

text \<open>The loop itself. It need not terminate, so it is a partial function: \<open>None\<close> is the
  run that never leaves the loop.\<close>

partial_function (option) splitText_loop ::
  "int \<Rightarrow> int \<Rightarrow> string \<Rightarrow> int \<Rightarrow> string list \<Rightarrow> string list option" where
  "splitText_loop chunkSize chunkOverlap text start chunks =
     (if start < int (length text) then
        splitText_loop chunkSize chunkOverlap text
          (chunk_end chunkSize text start - chunkOverlap)
          (chunks @ [js_trim (js_slice text start (chunk_end chunkSize text start))])
      else Some chunks)"

definition splitText :: "int \<Rightarrow> int \<Rightarrow> string \<Rightarrow> string list option" where
  "splitText chunkSize chunkOverlap text =
     map_option (filter (\<lambda>chunk. length chunk > 0))
       (splitText_loop chunkSize chunkOverlap text 0 [])"

section \<open>JavaScript numbers\<close>

text \<open>
  A JavaScript number is a double: a finite one, \<open>Num\<close> with its value as a real, or \<open>NaN\<close>, or
  an infinity. The sign of zero is not modelled: the sums of the metric start at \<open>+0\<close> and
  never become \<open>-0\<close>, and a similarity of \<open>-0\<close> is compared and subtracted as 0 is. The
  arithmetic of doubles rounds, and it belongs to the language, not to the repository: the
  model takes the rounding as a parameter \<open>fl\<close>, where \<open>fl x\<close> is the double that an exact
  result \<open>x\<close> is rounded to: zero when \<open>x\<close> underflows, an infinity when \<open>x\<close> lies beyond the
  largest double.
\<close>

datatype jsnum = Num real | NaN | PosInfinity | NegInfinity

fun negative :: "jsnum \<Rightarrow> bool" where
  "negative (Num a) = (a < 0)"
| "negative NegInfinity = True"
| "negative _ = False"

fun js_add :: "(real \<Rightarrow> jsnum) \<Rightarrow> jsnum \<Rightarrow> jsnum \<Rightarrow> jsnum" where
  "js_add fl (Num a) (Num b) = fl (a + b)"
| "js_add fl NaN _ = NaN"
| "js_add fl _ NaN = NaN"
| "js_add fl PosInfinity NegInfinity = NaN"
| "js_add fl NegInfinity PosInfinity = NaN"
| "js_add fl PosInfinity _ = PosInfinity"
| "js_add fl NegInfinity _ = NegInfinity"
| "js_add fl (Num a) PosInfinity = PosInfinity"
| "js_add fl (Num a) NegInfinity = NegInfinity"

fun js_sub :: "(real \<Rightarrow> jsnum) \<Rightarrow> jsnum \<Rightarrow> jsnum \<Rightarrow> jsnum" where
  "js_sub fl (Num a) (Num b) = fl (a - b)"
| "js_sub fl NaN _ = NaN"
| "js_sub fl _ NaN = NaN"
| "js_sub fl PosInfinity PosInfinity = NaN"
| "js_sub fl NegInfinity NegInfinity = NaN"
| "js_sub fl PosInfinity _ = PosInfinity"
| "js_sub fl NegInfinity _ = NegInfinity"
| "js_sub fl (Num a) PosInfinity = NegInfinity"
| "js_sub fl (Num a) NegInfinity = PosInfinity"

text \<open>A product with an infinity is \<open>NaN\<close> when the other factor is zero, and an infinity of
  the product's sign otherwise.\<close>

fun js_mul :: "(real \<Rightarrow> jsnum) \<Rightarrow> jsnum \<Rightarrow> jsnum \<Rightarrow> jsnum" where
  "js_mul fl (Num a) (Num b) = fl (a * b)"
| "js_mul fl NaN _ = NaN"
| "js_mul fl _ NaN = NaN"
| "js_mul fl x y =
     (if x = Num 0 \<or> y = Num 0 then NaN
      else if negative x = negative y then PosInfinity else NegInfinity)"

text \<open>Division: \<open>0 / 0\<close> and a quotient of two infinities are \<open>NaN\<close>, a non-zero number over
  zero is an infinity, and a finite number over an infinity is zero.\<close>

fun js_div :: "(real \<Rightarrow> jsnum) \<Rightarrow> jsnum \<Rightarrow> jsnum \<Rightarrow> jsnum" where
  "js_div fl (Num a) (Num b) =
     (if b \<noteq> 0 then fl (a / b)
      else if a = 0 then NaN
      else if 0 < a then PosInfinity else NegInfinity)"
| "js_div fl NaN _ = NaN"
| "js_div fl _ NaN = NaN"
| "js_div fl (Num a) _ = Num 0"
| "js_div fl PosInfinity (Num b) = (if b < 0 then NegInfinity else PosInfinity)"
| "js_div fl NegInfinity (Num b) = (if b < 0 then PosInfinity else NegInfinity)"
| "js_div fl _ _ = NaN"

text \<open>\<^verbatim>\<open>Math.sqrt\<close>.\<close>

fun js_sqrt :: "(real \<Rightarrow> jsnum) \<Rightarrow> jsnum \<Rightarrow> jsnum" where
  "js_sqrt fl (Num a) = (if a < 0 then NaN else fl (sqrt a))"
| "js_sqrt fl PosInfinity = PosInfinity"
| "js_sqrt fl _ = NaN"


text \<open>
  \<^verbatim>\<open>Array.prototype.sort(comparefn)\<close> reads the number its comparator returns by its sign only,
  and takes \<open>NaN\<close> for zero; a comparator of the model returns that sign. \<open>difference_sign x y\<close>
  is the sign so read of the double \<^verbatim>\<open>x - y\<close>: rounding does not change the sign of a difference
  of two doubles, which is zero only when they are equal.
\<close>

fun difference_sign :: "jsnum \<Rightarrow> jsnum \<Rightarrow> int" where
  "difference_sign (Num a) (Num b) = (if a < b then - 1 else if b < a then 1 else 0)"
| "difference_sign NaN _ = 0"
| "difference_sign _ NaN = 0"
| "difference_sign PosInfinity PosInfinity = 0"
| "difference_sign NegInfinity NegInfinity = 0"
| "difference_sign PosInfinity _ = 1"
| "difference_sign NegInfinity _ = - 1"
| "difference_sign (Num a) PosInfinity = - 1"
| "difference_sign (Num a) NegInfinity = 1"






text \<open>\<^verbatim>\<open>xs[i]\<close>: \<open>undefined\<close>, here \<open>None\<close>, outside the array.\<close>

definition js_index :: "'a list \<Rightarrow> nat \<Rightarrow> 'a option" where
  "js_index xs i = (if i < length xs then Some (xs ! i) else None)"

text \<open>Decimal rendering of a non-negative integer, as a template literal does it.\<close>

fun show_nat :: "nat \<Rightarrow> string" where
  "show_nat n =
     (if n < 10 then [''0123456789'' ! n]
      else show_nat (n div 10) @ [''0123456789'' ! (n mod 10)])"

declare show_nat.simps [simp del]

text \<open>\<^verbatim>\<open>parts.join(sep)\<close>.\<close>

fun js_join :: "string \<Rightarrow> string list \<Rightarrow> string" where
  "js_join sep [] = []"
| "js_join sep [x] = x"
| "js_join sep (x # y # ys) = x @ sep @ js_join sep (y # ys)"

section \<open>JSON values\<close>

text \<open>
  \<^verbatim>\<open>JSON.stringify\<close> and \<^verbatim>\<open>JSON.parse\<close> belong to the language, not to the repository. The
  model stops at the JSON value that the two exchange: the snapshot file holds such a value,
  and a metadata object is the JSON object it serialises to.
\<close>

datatype json =
  JNull | JBool bool | JNum real | JStr string | JArr "json list" | JObj "(string \<times> json) list"

text \<open>Property access on a parsed value; \<open>None\<close> is \<open>undefined\<close>.\<close>

fun json_get :: "json \<Rightarrow> string \<Rightarrow> json option" where
  "json_get (JObj fields) name = map_of fields name"
| "json_get _ name = None"

text \<open>The values that \<^verbatim>\<open>||\<close> replaces by its right operand.\<close>

fun json_falsy :: "json option \<Rightarrow> bool" where
  "json_falsy None = True"
| "json_falsy (Some JNull) = True"
| "json_falsy (Some (JBool b)) = (\<not> b)"
| "json_falsy (Some (JNum x)) = (x = 0)"
| "json_falsy (Some (JStr s)) = (s = [])"
| "json_falsy (Some _) = False"

fun as_string :: "json \<Rightarrow> string option" where
  "as_string (JStr s) = Some s"
| "as_string _ = None"

fun as_number :: "json \<Rightarrow> real option" where
  "as_number (JNum x) = Some x"
| "as_number _ = None"

fun as_array :: "json \<Rightarrow> json list option" where
  "as_array (JArr xs) = Some xs"
| "as_array _ = None"

definition as_strings :: "json \<Rightarrow> string list option" where
  "as_strings j = (case as_array j of None \<Rightarrow> None | Some xs \<Rightarrow> those (map as_string xs))"

definition as_vector :: "json \<Rightarrow> real list option" where
  "as_vector j = (case as_array j of None \<Rightarrow> None | Some xs \<Rightarrow> those (map as_number xs))"

definition as_vectors :: "json \<Rightarrow> real list list option" where
  "as_vectors j = (case as_array j of None \<Rightarrow> None | Some xs \<Rightarrow> those (map as_vector xs))"

section \<open>Embedding gateway: \<^verbatim>\<open>EmbeddingService\<close>\<close>

datatype error = UpstreamServiceFailure | TypeError

text \<open>
  The embedding model is outside the repository: \<open>generateEmbedding text\<close> is the vector
  that the call to it returns, or \<open>None\<close> when the call throws. \<^verbatim>\<open>generateEmbeddings\<close> sends the texts five at a time; a
  batch is awaited with \<^verbatim>\<open>Promise.all\<close>, which fails when one of its calls fails.
\<close>

function generateEmbeddings ::
  "(string \<Rightarrow> real list option) \<Rightarrow> string list \<Rightarrow> real list list option" where
  "generateEmbeddings generateEmbedding texts =
     (if texts = [] then Some []
      else case those (map generateEmbedding (take 5 texts)) of
          None \<Rightarrow> None
        | Some batchEmbeddings \<Rightarrow>
            map_option ((@) batchEmbeddings) (generateEmbeddings generateEmbedding (drop 5 texts)))"
  by pat_completeness auto
termination
  by (relation "measure (\<lambda>(g, texts). length texts)") auto

declare generateEmbeddings.simps [simp del]

section \<open>In-process vector index: \<^verbatim>\<open>SimpleVectorStore\<close>\<close>

record document =
  content :: string
  source :: "string option"
  title :: "string option"
  chunkIndex :: "nat option"

record vector_store =
  documents :: "string list"
  embeddings :: "real list list"
  metadatas :: "json list"
  ids :: "string list"
  collectionName :: string

record search_result =
  res_content :: "string option"
  res_metadata :: "json option"
  distance :: jsnum
  similarity :: jsnum

text \<open>\<^verbatim>\<open>doc.source || 'unknown'\<close>: a missing or empty string gives the default.\<close>

definition string_or :: "string option \<Rightarrow> string \<Rightarrow> string" where
  "string_or v d = (case v of None \<Rightarrow> d | Some s \<Rightarrow> if s = [] then d else s)"

definition metadata_of :: "document \<Rightarrow> json" where
  "metadata_of doc =
     JObj [(''source'', JStr (string_or (source doc) ''unknown'')),
           (''title'', JStr (string_or (title doc) ''untitled'')),
           (''chunk_index'', JNum (case chunkIndex doc of None \<Rightarrow> 0 | Some i \<Rightarrow> real i))]"

text \<open>The snapshot that \<^verbatim>\<open>saveToStorage\<close> hands to \<^verbatim>\<open>fs.writeFile\<close>.\<close>

definition saveToStorage :: "vector_store \<Rightarrow> json" where
  "saveToStorage store =
     JObj [(''documents'', JArr (map JStr (documents store))),
           (''embeddings'', JArr (map (\<lambda>e. JArr (map JNum e)) (embeddings store))),
           (''metadatas'', JArr (metadatas store)),
           (''ids'', JArr (map JStr (ids store))),
           (''collectionName'', JStr (collectionName store))]"

text \<open>
  \<^verbatim>\<open>addDocuments\<close>. \<open>clock index\<close> is what \<^verbatim>\<open>Date.now()\<close> returns when the id of the document
  at \<open>index\<close> is built. The result is the new store together with the snapshot written; a
  failed write is only logged.
\<close>

definition addDocuments ::
  "(string \<Rightarrow> real list option) \<Rightarrow> (nat \<Rightarrow> nat) \<Rightarrow> document list \<Rightarrow> vector_store
     \<Rightarrow> error + vector_store \<times> json" where
  "addDocuments generateEmbedding clock docs store =
     (let texts = map content docs in
      case generateEmbeddings generateEmbedding texts of
        None \<Rightarrow> Inl UpstreamServiceFailure
      | Some new_embeddings \<Rightarrow>
          (let new_ids =
                 map (\<lambda>index. ''doc_'' @ show_nat (clock index) @ ''_'' @ show_nat index)
                   [0..<length docs];
               new_metadatas = map metadata_of docs;
               store' = store
                 \<lparr>documents := documents store @ texts,
                  embeddings := embeddings store @ new_embeddings,
                  metadatas := metadatas store @ new_metadatas,
                  ids := ids store @ new_ids\<rparr>
           in Inr (store', saveToStorage store')))"

text \<open>The loop of \<^verbatim>\<open>cosineSimilarity\<close>, over the indices of \<open>a\<close>, with its three
  accumulators.\<close>

definition cosine_sums ::
  "(real \<Rightarrow> jsnum) \<Rightarrow> real list \<Rightarrow> real list \<Rightarrow> jsnum \<times> jsnum \<times> jsnum" where
  "cosine_sums fl a b =
     fold (\<lambda>i (dotProduct, normA, normB).
             (js_add fl dotProduct (js_mul fl (Num (a ! i)) (Num (b ! i))),
              js_add fl normA (js_mul fl (Num (a ! i)) (Num (a ! i))),
              js_add fl normB (js_mul fl (Num (b ! i)) (Num (b ! i)))))
       [0..<length a] (Num 0, Num 0, Num 0)"

definition cosineSimilarity :: "(real \<Rightarrow> jsnum) \<Rightarrow> real list \<Rightarrow> real list \<Rightarrow> jsnum" where
  "cosineSimilarity fl a b =
     (if length a \<noteq> length b then Num 0
      else case cosine_sums fl a b of
        (dotProduct, normA, normB) \<Rightarrow>
          js_div fl dotProduct (js_mul fl (js_sqrt fl normA) (js_sqrt fl normB)))"

definition result_at ::
  "(real \<Rightarrow> jsnum) \<Rightarrow> vector_store \<Rightarrow> jsnum \<Rightarrow> nat \<Rightarrow> search_result" where
  "result_at fl store sim index =
     \<lparr>res_content = js_index (documents store) index,
      res_metadata = js_index (metadatas store) index,
      distance = js_sub fl (Num 1) sim,
      similarity = sim\<rparr>"

text \<open>The records that \<^verbatim>\<open>similarity_search\<close> builds before it sorts them: one for each stored
  embedding, in the order of the store.\<close>

definition scored_results ::
  "(real \<Rightarrow> jsnum) \<Rightarrow> vector_store \<Rightarrow> real list \<Rightarrow> search_result list" where
  "scored_results fl store queryEmbedding =
     (let similarities = map (cosineSimilarity fl queryEmbedding) (embeddings store)
      in map (\<lambda>(sim, index). result_at fl store sim index)
           (zip similarities [0..<length similarities]))"

text \<open>The comparator \<^verbatim>\<open>(a, b) => b.similarity - a.similarity\<close>, by its sign.\<close>

definition by_similarity :: "search_result \<Rightarrow> search_result \<Rightarrow> int" where
  "by_similarity a b = difference_sign (similarity b) (similarity a)"

definition similarity_search ::
  "(real \<Rightarrow> jsnum)
     \<Rightarrow> ((search_result \<Rightarrow> search_result \<Rightarrow> int) \<Rightarrow> search_result list \<Rightarrow> search_result list)
     \<Rightarrow> (string \<Rightarrow> real list option) \<Rightarrow> vector_store \<Rightarrow> string \<Rightarrow> int
     \<Rightarrow> error + search_result list" where
  "similarity_search fl arraySort generateEmbedding store query k =
     (if length (embeddings store) = 0 then Inr []
      else case generateEmbedding query of
        None \<Rightarrow> Inl UpstreamServiceFailure
      | Some queryEmbedding \<Rightarrow>
          Inr (js_slice (arraySort by_similarity (scored_results fl store queryEmbedding)) 0 k))"

text \<open>
  \<^verbatim>\<open>loadFromStorage\<close>. The file is \<open>None\<close> when it cannot be read or parsed: the exception is
  caught and the store stays as it is, as it does when the parsed value is \<^verbatim>\<open>null\<close>, whose
  property access throws. \<open>field_or\<close> is \<^verbatim>\<open>parsed.name || fallback\<close>, decoded: a field that
  is missing or falsy is replaced by its default. The
  result is \<open>None\<close> when a field holds a value of another shape than \<^verbatim>\<open>saveToStorage\<close> writes:
  the typed store cannot hold it.
\<close>

definition field_or :: "json \<Rightarrow> string \<Rightarrow> (json \<Rightarrow> 'a option) \<Rightarrow> 'a \<Rightarrow> 'a option" where
  "field_or parsed name decode fallback =
     (case json_get parsed name of
        None \<Rightarrow> Some fallback
      | Some v \<Rightarrow> if json_falsy (Some v) then Some fallback else decode v)"

definition loadFromStorage :: "vector_store \<Rightarrow> json option \<Rightarrow> vector_store option" where
  "loadFromStorage store file =
     (case file of
        None \<Rightarrow> Some store
      | Some JNull \<Rightarrow> Some store
      | Some parsed \<Rightarrow>
          (case (field_or parsed ''documents'' as_strings [],
                 field_or parsed ''embeddings'' as_vectors [],
                 field_or parsed ''metadatas'' as_array [],
                 field_or parsed ''ids'' as_strings [],
                 field_or parsed ''collectionName'' as_string (collectionName store)) of
             (Some d, Some e, Some m, Some i, Some c) \<Rightarrow>
               Some \<lparr>documents = d, embeddings = e, metadatas = m, ids = i,
                     collectionName = c\<rparr>
           | _ \<Rightarrow> None))"

text \<open>\<^verbatim>\<open>new SimpleVectorStore()\<close>, for the collection name the environment gives.\<close>

definition new_store :: "string \<Rightarrow> vector_store" where
  "new_store name =
     \<lparr>documents = [], embeddings = [], metadatas = [], ids = [], collectionName = name\<rparr>"






text \<open>Example data: an embedding model that answers every text with the unit vector
  \<open>(1, 0)\<close>, two documents, and a store of three records with the embeddings given.\<close>

definition unit_embedding :: "string \<Rightarrow> real list option" where
  "unit_embedding text = Some [1, 0]"

definition cats :: document where
  "cats = \<lparr>content = ''Cats are mammals.'', source = Some ''pets.txt'', title = Some ''Pets'',
            chunkIndex = Some 0\<rparr>"

definition dogs :: document where
  "dogs = \<lparr>content = ''Dogs are mammals too.'', source = Some ''pets.txt'', title = Some ''Pets'',
            chunkIndex = Some 1\<rparr>"


section \<open>Conversation context manager: \<^verbatim>\<open>ConversationContextService\<close>\<close>

text \<open>
  A stored message has an id and metadata; the system message that \<^verbatim>\<open>getContext\<close> synthesises has
  neither. Times are numbers read from the clock, and \<^verbatim>\<open>uuidv4()\<close> is outside the repository:
  both are arguments of the operations that read them.
\<close>

record message =
  message_id :: "string option"
  role :: string
  message_content :: string
  timestamp :: nat
  message_metadata :: "json option"

record conversation =
  messages :: "message list"
  createdAt :: nat
  lastAccessed :: nat

record context_service =
  conversations :: "string \<rightharpoonup> conversation"
  maxContextLength :: int
  maxTokens :: int

text \<open>\<^verbatim>\<open>createSession(sessionId = null)\<close>: \<open>uuid\<close> is the value \<^verbatim>\<open>uuidv4()\<close> returns if it is called,
  which is when the session id is missing or empty.\<close>

definition createSession ::
  "string \<Rightarrow> nat \<Rightarrow> string option \<Rightarrow> context_service \<Rightarrow> string \<times> context_service" where
  "createSession uuid now sessionId svc =
     (let id = string_or sessionId uuid
      in (id, svc\<lparr>conversations := (conversations svc)
                (id \<mapsto> \<lparr>messages = [], createdAt = now, lastAccessed = now\<rparr>)\<rparr>))"

text \<open>\<^verbatim>\<open>Math.ceil(message.content.length / 4)\<close>, summed.\<close>

definition estimateTokens :: "message list \<Rightarrow> int" where
  "estimateTokens msgs =
     fold (\<lambda>message total. total + int ((length (message_content message) + 3) div 4)) msgs 0"

text \<open>The \<^verbatim>\<open>while\<close> loop of \<^verbatim>\<open>trimConversation\<close>: drop the oldest message while the estimate
  exceeds the budget and more than two messages remain.\<close>

function trim_tokens :: "int \<Rightarrow> message list \<Rightarrow> message list" where
  "trim_tokens budget msgs =
     (if estimateTokens msgs > budget \<and> length msgs > 2
      then trim_tokens budget (js_slice_from msgs 1)
      else msgs)"
  by pat_completeness auto
termination
  by (relation "measure (\<lambda>(budget, msgs). length msgs)")
    (auto simp: js_slice_from_def js_slice_def)

declare trim_tokens.simps [simp del]

text \<open>What \<^verbatim>\<open>trimConversation\<close> leaves of a message list: the cap by count, then the cap by
  estimated tokens.\<close>

definition trimmed :: "context_service \<Rightarrow> message list \<Rightarrow> message list" where
  "trimmed svc msgs =
     trim_tokens (maxTokens svc)
       (if int (length msgs) > maxContextLength svc
        then js_slice_from msgs (- maxContextLength svc) else msgs)"

definition trimConversation :: "string \<Rightarrow> context_service \<Rightarrow> context_service" where
  "trimConversation sessionId svc =
     (case conversations svc sessionId of
        None \<Rightarrow> svc
      | Some conversation \<Rightarrow>
          svc\<lparr>conversations := (conversations svc)
            (sessionId \<mapsto> conversation\<lparr>messages := trimmed svc (messages conversation)\<rparr>)\<rparr>)"

text \<open>
  \<^verbatim>\<open>addMessage\<close>. \<open>session_uuid\<close> is what \<^verbatim>\<open>uuidv4()\<close> returns inside \<^verbatim>\<open>createSession\<close>, \<open>uuid\<close> what
  it returns for the message id. When the lookup after the auto-creation finds no
  conversation, \<^verbatim>\<open>conversation.messages\<close> throws a \<^verbatim>\<open>TypeError\<close>.
\<close>

definition addMessage ::
  "string \<Rightarrow> string \<Rightarrow> nat \<Rightarrow> string \<Rightarrow> string \<Rightarrow> string \<Rightarrow> json \<Rightarrow> context_service
     \<Rightarrow> error + message \<times> context_service" where
  "addMessage session_uuid uuid now sessionId msg_role msg_text metadata svc =
     (let svc1 = (if conversations svc sessionId = None
                  then snd (createSession session_uuid now (Some sessionId) svc) else svc)
      in case conversations svc1 sessionId of
           None \<Rightarrow> Inl TypeError
         | Some conversation \<Rightarrow>
             (let message = \<lparr>message_id = Some uuid, role = msg_role, message_content = msg_text,
                             timestamp = now, message_metadata = Some metadata\<rparr>;
                  conversation' = conversation
                    \<lparr>messages := messages conversation @ [message], lastAccessed := now\<rparr>;
                  svc2 = svc1\<lparr>conversations := (conversations svc1)
                           (sessionId \<mapsto> conversation')\<rparr>
              in Inr (message, trimConversation sessionId svc2)))"

definition buildSystemPrompt :: string where
  "buildSystemPrompt =
     ''You are a specialist AI agent with expertise in document analysis and question answering. \<newline>'' @
     ''\<newline>'' @
     ''You have access to a knowledge base of documents and can maintain conversation context. When answering questions:\<newline>'' @
     ''\<newline>'' @
     ''1. Use the provided document context to give accurate, detailed answers\<newline>'' @
     ''2. Reference previous parts of the conversation when relevant\<newline>'' @
     ''3. Maintain consistency with earlier responses\<newline>'' @
     ''4. If you don't know something based on the documents, clearly state this\<newline>'' @
     ''5. Provide specific citations from the source documents when possible\<newline>'' @
     ''\<newline>'' @
     ''Remember to be helpful, accurate, and maintain the conversation flow naturally.''"

definition system_message :: "nat \<Rightarrow> message" where
  "system_message now =
     \<lparr>message_id = None, role = ''system'', message_content = buildSystemPrompt,
      timestamp = now, message_metadata = None\<rparr>"

text \<open>\<^verbatim>\<open>getContext(sessionId, includeSystemMessage = true)\<close>: the context returned, and the
  service, where a known session has its \<^verbatim>\<open>lastAccessed\<close> updated.\<close>

definition getContext ::
  "nat \<Rightarrow> string \<Rightarrow> bool \<Rightarrow> context_service \<Rightarrow> message list \<times> context_service" where
  "getContext now sessionId includeSystemMessage svc =
     (case conversations svc sessionId of
        None \<Rightarrow> (if includeSystemMessage then [system_message now] else [], svc)
      | Some conversation \<Rightarrow>
          (let svc' = svc\<lparr>conversations := (conversations svc)
                        (sessionId \<mapsto> conversation\<lparr>lastAccessed := now\<rparr>)\<rparr>;
               context = js_slice_from (messages conversation) (- maxContextLength svc);
               context = (if includeSystemMessage \<and> length context > 0
                          then system_message now # context else context)
           in (context, svc')))"

text \<open>\<^verbatim>\<open>getRecentContext(sessionId, excludeLast = 0)\<close>.\<close>

definition getRecentContext :: "string \<Rightarrow> int \<Rightarrow> context_service \<Rightarrow> message list" where
  "getRecentContext sessionId excludeLast svc =
     (case conversations svc sessionId of
        None \<Rightarrow> []
      | Some conversation \<Rightarrow>
          (let msgs = js_slice (messages conversation) 0 (- excludeLast)
           in js_slice_from msgs (- maxContextLength svc)))"

definition getConversationSummary :: "string \<Rightarrow> context_service \<Rightarrow> string" where
  "getConversationSummary sessionId svc =
     (case conversations svc sessionId of
        None \<Rightarrow> []
      | Some conversation \<Rightarrow>
          (let recentMessages = js_slice_from (messages conversation) (- 5)
           in if length recentMessages = 0 then []
              else ''Recent conversation context:\<newline>'' @
                js_join ''\<newline>''
                  (map (\<lambda>msg. role msg @ '': '' @ take 100 (message_content msg) @
                          (if length (message_content msg) > 100 then ''...'' else []))
                     recentMessages)))"

record conversation_stats =
  messageCount :: nat
  stats_createdAt :: nat
  stats_lastAccessed :: nat
  estimatedTokens :: int

text \<open>\<^verbatim>\<open>getConversationStats\<close>: \<open>None\<close> is the \<^verbatim>\<open>null\<close> returned for an unknown session.\<close>

definition getConversationStats :: "string \<Rightarrow> context_service \<Rightarrow> conversation_stats option" where
  "getConversationStats sessionId svc =
     (case conversations svc sessionId of
        None \<Rightarrow> None
      | Some conversation \<Rightarrow>
          Some \<lparr>messageCount = length (messages conversation),
                stats_createdAt = createdAt conversation,
                stats_lastAccessed = lastAccessed conversation,
                estimatedTokens = estimateTokens (messages conversation)\<rparr>)"

section \<open>Answer orchestrator: \<^verbatim>\<open>ChatService\<close>\<close>

text \<open>
  A call passes a list of arguments; a parameter with a default takes the default when its
  argument is missing, and arguments beyond the parameters are dropped. \<open>js_param args i d\<close>
  is the value of parameter \<open>i\<close> with default \<open>d\<close>. A parameter without a default is
  \<^verbatim>\<open>undefined\<close> when its argument is missing, which a template literal prints as the word
  \<open>undefined\<close>.
\<close>

definition js_param :: "string list \<Rightarrow> nat \<Rightarrow> string \<Rightarrow> string" where
  "js_param args i d = (if i < length args then args ! i else d)"

text \<open>\<^verbatim>\<open>buildPrompt(query, documentContext, conversationContext = '')\<close>, applied to the arguments
  that follow the query.\<close>

definition buildPrompt :: "string \<Rightarrow> string list \<Rightarrow> string" where
  "buildPrompt query args =
     (let documentContext = js_param args 0 ''undefined'';
          conversationContext = js_param args 1 [];
          prompt =
            ''You are a specialist AI agent with expertise in document analysis and question answering. Use the provided context to answer the user's question accurately and comprehensively.\<newline>'' @
            ''\<newline>'' @
            ''Document Context:\<newline>'' @ documentContext;
          prompt = (if conversationContext \<noteq> []
                    then prompt @ ''\<newline>\<newline>Conversation Context:\<newline>'' @ conversationContext
                    else prompt)
      in prompt @ ''\<newline>\<newline>Question: '' @ query @ ''\<newline>'' @
         ''\<newline>'' @
         ''Instructions:\<newline>'' @
         ''- Answer based primarily on the provided document context\<newline>'' @
         ''- Use conversation context to maintain continuity and provide more relevant responses\<newline>'' @
         ''- Be specific and detailed in your response\<newline>'' @
         ''- If the context doesn't contain enough information, clearly state what's missing\<newline>'' @
         ''- Cite specific sources when possible\<newline>'' @
         ''- Maintain a professional and knowledgeable tone\<newline>'' @
         ''- Reference previous parts of the conversation when relevant\<newline>'' @
         ''\<newline>'' @
         ''Answer:'')"

text \<open>\<^verbatim>\<open>generateResponse(query, context = '')\<close> builds the prompt with
  \<^verbatim>\<open>this.buildPrompt(query, context)\<close> and sends it to the chat model: \<open>chat prompt\<close> is the
  model's answer, or the error the call throws.\<close>

definition generateResponse_prompt :: "string \<Rightarrow> string list \<Rightarrow> string" where
  "generateResponse_prompt query args =
     (let context = js_param args 0 [] in buildPrompt query [context])"

definition generateResponse ::
  "(string \<Rightarrow> error + string) \<Rightarrow> string \<Rightarrow> string list \<Rightarrow> error + string" where
  "generateResponse chat query args = chat (generateResponse_prompt query args)"

text \<open>The fields of a retrieved document that \<^verbatim>\<open>answerQuestion\<close> puts into the prompt.\<close>

record retrieved_doc =
  metadata_source :: string
  doc_content :: string

definition documentContext_of :: "retrieved_doc list \<Rightarrow> string" where
  "documentContext_of relevantDocs =
     js_join ''\<newline>\<newline>---\<newline>\<newline>''
       (map (\<lambda>doc. ''Source: '' @ metadata_source doc @ ''\<newline>'' @ doc_content doc) relevantDocs)"

text \<open>\<^verbatim>\<open>if (sessionId)\<close>: a session id that is \<^verbatim>\<open>null\<close> or empty is none.\<close>

definition truthy :: "string option \<Rightarrow> bool" where
  "truthy v = (case v of None \<Rightarrow> False | Some s \<Rightarrow> s \<noteq> [])"

text \<open>
  \<^verbatim>\<open>answerQuestion(question, sessionId = null)\<close> up to its call of the chat model:
  \<open>relevantDocs\<close> are the documents the vector store returned. The call is
  \<^verbatim>\<open>this.generateResponse(question, documentContext, conversationContextText)\<close>.
\<close>

definition answerQuestion_prompt ::
  "context_service \<Rightarrow> retrieved_doc list \<Rightarrow> string \<Rightarrow> string option \<Rightarrow> string" where
  "answerQuestion_prompt svc relevantDocs question sessionId =
     (let documentContext = documentContext_of relevantDocs;
          conversationContextText =
            (if truthy sessionId then getConversationSummary (the sessionId) svc else [])
      in generateResponse_prompt question [documentContext, conversationContextText])"

section \<open>Sequences of calls and example states\<close>

text \<open>One \<^verbatim>\<open>addMessage\<close> call on a session: what \<^verbatim>\<open>uuidv4()\<close> and the clock return during
  the call, and the role, content and metadata passed.\<close>

record call =
  call_session_uuid :: string
  call_uuid :: string
  call_now :: nat
  call_role :: string
  call_content :: string
  call_metadata :: json

definition message_of :: "call \<Rightarrow> message" where
  "message_of c =
     \<lparr>message_id = Some (call_uuid c), role = call_role c, message_content = call_content c,
      timestamp = call_now c, message_metadata = Some (call_metadata c)\<rparr>"



text \<open>The messages of a session; none for an unknown one.\<close>

definition messages_of :: "context_service \<Rightarrow> string \<Rightarrow> message list" where
  "messages_of svc sessionId =
     (case conversations svc sessionId of None \<Rightarrow> [] | Some conversation \<Rightarrow> messages conversation)"

text \<open>\<^verbatim>\<open>new ConversationContextService()\<close> with the defaults of its constructor.\<close>

definition new_context_service :: context_service where
  "new_context_service = \<lparr>conversations = Map.empty, maxContextLength = 10, maxTokens = 4000\<rparr>"

definition example_call :: "string \<Rightarrow> string \<Rightarrow> call" where
  "example_call r text =
     \<lparr>call_session_uuid = ''2f1c'', call_uuid = ''9b7e'', call_now = 1700000000000,
      call_role = r, call_content = text, call_metadata = JObj []\<rparr>"

text \<open>A service with one session, \<open>s1\<close>, that holds the given messages.\<close>

definition service_with :: "message list \<Rightarrow> context_service" where
  "service_with msgs =
     new_context_service\<lparr>conversations :=
       [''s1'' \<mapsto> \<lparr>messages = msgs, createdAt = 1700000000000, lastAccessed = 1700000000000\<rparr>]\<rparr>"

definition example_messages :: "message list" where
  "example_messages =
     [message_of (example_call ''user'' ''What is a cat?''),
      message_of (example_call ''assistant'' ''Cats are mammals.'')]"

text \<open>A text of 603 characters whose only full stop is at index 2, for the chunker as the
  router configures it, \<^verbatim>\<open>new TextSplitter(500, 100)\<close>.\<close>

definition long_text :: string where
  "long_text = ''Hi.'' @ replicate 600 CHR ''x''"

section \<open>Properties of the chunker\<close>

lemma chunk_end_example_0: "chunk_end 5 ''ab.cdefghij'' 0 = 3"
  by (simp add: chunk_end_def lastIndexOf_def occurs_at_def eval_nat_numeral)

lemma chunk_end_example_1: "chunk_end 5 ''ab.cdefghij'' 1 = 3"
  by (simp add: chunk_end_def lastIndexOf_def occurs_at_def eval_nat_numeral)

text \<open>A start from which one round of the loop leads back to the same start is never
  left: the run does not return.\<close>

lemma splitText_loop_no_progress:
  assumes "start < int (length text)"
    and "chunk_end chunkSize text start - chunkOverlap = start"
  shows "splitText_loop chunkSize chunkOverlap text start chunks = None"
proof (rule ccontr)
  assume "splitText_loop chunkSize chunkOverlap text start chunks \<noteq> None"
  then obtain r where r: "splitText_loop chunkSize chunkOverlap text start chunks = Some r"
    by auto
  define P :: "int \<Rightarrow> int \<Rightarrow> string \<Rightarrow> int \<Rightarrow> string list \<Rightarrow> string list \<Rightarrow> bool"
    where "P = (\<lambda>cs co t s ch y.
      \<not> (cs = chunkSize \<and> co = chunkOverlap \<and> t = text \<and> s = start))"
  have "P chunkSize chunkOverlap text start chunks r"
  proof (rule splitText_loop.raw_induct [where P = P, OF _ r])
    fix lp cs co t s ch y
    assume IH: "\<And>cs co t s ch y. lp cs co t s ch = Some y \<Longrightarrow> P cs co t s ch y"
      and step: "(if s < int (length t)
          then lp cs co t (chunk_end cs t s - co)
            (ch @ [js_trim (js_slice t s (chunk_end cs t s))])
          else Some ch) = Some y"
    show "P cs co t s ch y"
      unfolding P_def
    proof
      assume a: "cs = chunkSize \<and> co = chunkOverlap \<and> t = text \<and> s = start"
      with step assms have "lp chunkSize chunkOverlap text start
          (ch @ [js_trim (js_slice text start (chunk_end chunkSize text start))]) = Some y"
        by simp
      from IH [OF this] show False by (simp add: P_def)
    qed
  qed
  then show False by (simp add: P_def)
qed

text \<open>From \<open>start = 1\<close> the loop comes back to \<open>start = 1\<close>: the break point found is the
  full stop at index 2, the chunk ends at 3, and \<open>3 - 2 = 1\<close>.\<close>

lemma splitText_loop_stuck:
  "splitText_loop 5 2 ''ab.cdefghij'' 1 chunks = None"
  by (rule splitText_loop_no_progress) (simp_all add: chunk_end_example_1)

text \<open>What holds of the chunks when the loop does return: each is trimmed, and
  \<open>splitText\<close> keeps the non-empty ones.\<close>

lemma js_trim_fixed:
  assumes "x = [] \<or> (\<not> is_js_whitespace (hd x) \<and> \<not> is_js_whitespace (last x))"
  shows "js_trim x = x"
proof (cases "x = []")
  case True
  then show ?thesis by (simp add: js_trim_def)
next
  case False
  with assms have h: "\<not> is_js_whitespace (hd x)" and l: "\<not> is_js_whitespace (last x)"
    by auto
  from False h have "dropWhile is_js_whitespace x = x"
    by (cases x) auto
  moreover from False l have "dropWhile is_js_whitespace (rev x) = rev x"
    by (cases "rev x") (auto simp: last_rev [symmetric] hd_rev)
  ultimately show ?thesis by (simp add: js_trim_def)
qed

lemma js_trim_ends:
  "js_trim s = [] \<or> (\<not> is_js_whitespace (hd (js_trim s)) \<and> \<not> is_js_whitespace (last (js_trim s)))"
proof (cases "js_trim s = []")
  case True
  then show ?thesis by simp
next
  case False
  let ?t = "dropWhile is_js_whitespace s"
  let ?r = "dropWhile is_js_whitespace (rev ?t)"
  from False have r: "?r \<noteq> []" by (simp add: js_trim_def)
  then have "rev ?t \<noteq> []" by (metis dropWhile.simps(1))
  then have t: "?t \<noteq> []" by simp
  have "\<not> is_js_whitespace (hd ?r)" using r by (rule hd_dropWhile)
  then have last: "\<not> is_js_whitespace (last (js_trim s))"
    using r by (simp add: js_trim_def last_rev)
  have "suffix ?r (rev ?t)" by (rule suffix_dropWhile)
  then have "last ?r = last (rev ?t)"
    using r by (metis last_appendR suffix_def)
  then have "hd (js_trim s) = hd ?t"
    using r t by (simp add: js_trim_def hd_rev last_rev)
  moreover have "\<not> is_js_whitespace (hd ?t)" using t by (rule hd_dropWhile)
  ultimately show ?thesis using last by simp
qed

lemma js_trim_idem: "js_trim (js_trim s) = js_trim s"
  by (rule js_trim_fixed) (rule js_trim_ends)

lemma splitText_loop_trimmed:
  assumes "splitText_loop chunkSize chunkOverlap text start chunks = Some result"
    and "\<forall>c\<in>set chunks. js_trim c = c"
  shows "\<forall>c\<in>set result. js_trim c = c"
proof -
  define P :: "int \<Rightarrow> int \<Rightarrow> string \<Rightarrow> int \<Rightarrow> string list \<Rightarrow> string list \<Rightarrow> bool"
    where "P = (\<lambda>cs co t s acc res.
      (\<forall>c\<in>set acc. js_trim c = c) \<longrightarrow> (\<forall>c\<in>set res. js_trim c = c))"
  have "P chunkSize chunkOverlap text start chunks result"
  proof (rule splitText_loop.raw_induct [where P = P, OF _ assms(1)])
    fix lp cs co t s acc res
    assume IH: "\<And>cs co t s acc res. lp cs co t s acc = Some res \<Longrightarrow> P cs co t s acc res"
      and step: "(if s < int (length t)
          then lp cs co t (chunk_end cs t s - co)
            (acc @ [js_trim (js_slice t s (chunk_end cs t s))])
          else Some acc) = Some res"
    show "P cs co t s acc res"
    proof (cases "s < int (length t)")
      case True
      with step have "P cs co t (chunk_end cs t s - co)
          (acc @ [js_trim (js_slice t s (chunk_end cs t s))]) res"
        using IH by simp
      then show ?thesis by (simp add: P_def js_trim_idem)
    next
      case False
      with step show ?thesis by (simp add: P_def)
    qed
  qed
  with assms(2) show ?thesis by (simp add: P_def)
qed

lemma splitText_chunks_nonempty:
  assumes "splitText chunkSize chunkOverlap text = Some chunks" and "c \<in> set chunks"
  shows "js_trim c = c \<and> c \<noteq> []"
proof -
  from assms(1) obtain result where r: "splitText_loop chunkSize chunkOverlap text 0 [] = Some result"
    and c: "chunks = filter (\<lambda>chunk. length chunk > 0) result"
    by (auto simp: splitText_def)
  from splitText_loop_trimmed [OF r] have "\<forall>c\<in>set result. js_trim c = c" by simp
  with c assms(2) show ?thesis by auto
qed

text \<open>
  C1. For every text and every configuration with \<open>chunkSize > 0\<close> and
  \<open>overlap < chunkSize\<close>, \<open>splitText\<close> terminates and returns chunks that are non-empty after
  trimming. The code does not terminate on the text \<open>ab.cdefghij\<close> with \<open>chunkSize = 5\<close> and
  \<open>overlap = 2\<close>: a break point less than \<open>overlap\<close> characters after \<open>start\<close> keeps \<open>start\<close>
  from advancing.
\<close>

theorem splitText_diverges:
  "(0::int) < 5 \<and> (2::int) < 5 \<and> splitText 5 2 ''ab.cdefghij'' = None"
proof -
  have "splitText_loop 5 2 ''ab.cdefghij'' 0 [] = None"
    by (subst splitText_loop.simps)
      (simp add: chunk_end_example_0 splitText_loop_stuck)
  then show ?thesis by (simp add: splitText_def)
qed

text \<open>The same with the sizes the router uses: from \<open>start = 0\<close> the chunk ends at 3, the next
  start is \<open>3 - 100 = -97\<close>, and from there the chunk ends at 3 again.\<close>

lemma drop_long_text:
  "3 \<le> k \<Longrightarrow> drop k long_text = replicate (603 - k) CHR ''x''"
proof -
  assume "3 \<le> k"
  define j where "j = k - 3"
  with \<open>3 \<le> k\<close> have k: "k = Suc (Suc (Suc j))" by simp
  show ?thesis by (simp add: long_text_def k)
qed

lemma occurs_at_stop:
  "occurs_at long_text ''.'' k \<longleftrightarrow> k = 2"
proof (cases "k < 3")
  case True
  then consider "k = 0" | "k = 1" | "k = 2" by linarith
  then show ?thesis by cases (simp_all add: occurs_at_def long_text_def)
next
  case False
  then have "take (Suc 0) (drop k long_text) = take (Suc 0) (replicate (603 - k) CHR ''x'')"
    by (simp add: drop_long_text)
  also have "\<dots> \<noteq> ''.''" by (cases "603 - k") simp_all
  finally show ?thesis using False by (simp add: occurs_at_def)
qed

lemma occurs_at_break:
  "\<not> occurs_at long_text ''\<newline>\<newline>'' k"
proof (cases "k < 3")
  case True
  then consider "k = 0" | "k = 1" | "k = 2" by linarith
  then show ?thesis by cases (simp_all add: occurs_at_def long_text_def)
next
  case False
  then have "take (Suc (Suc 0)) (drop k long_text) =
      take (Suc (Suc 0)) (replicate (603 - k) CHR ''x'')"
    by (simp add: drop_long_text)
  also have "\<dots> \<noteq> ''\<newline>\<newline>''" by (cases "603 - k") simp_all
  finally show ?thesis using False by (simp add: occurs_at_def)
qed

lemma lastIndexOf_from_stop: "2 \<le> k \<Longrightarrow> lastIndexOf_from long_text ''.'' k = 2"
proof (induction k)
  case 0
  then show ?case by simp
next
  case (Suc k)
  then show ?case by (cases "k = 1") (simp_all add: occurs_at_stop)
qed

lemma lastIndexOf_from_break: "lastIndexOf_from long_text ''\<newline>\<newline>'' k = - 1"
  by (induction k) (simp_all add: occurs_at_break)

lemma chunk_end_long_text:
  "- 100 < start \<Longrightarrow> start < 2 \<Longrightarrow> chunk_end 500 long_text start = 3"
proof -
  assume a: "- 100 < start" "start < 2"
  have len: "length long_text = 603" by (simp add: long_text_def)
  have "lastIndexOf long_text ''.'' (start + 500) = 2"
    using a by (simp add: lastIndexOf_def len lastIndexOf_from_stop)
  moreover have "lastIndexOf long_text ''\<newline>\<newline>'' (start + 500) = - 1"
    by (simp add: lastIndexOf_def lastIndexOf_from_break)
  ultimately show ?thesis using a by (simp add: chunk_end_def len Let_def)
qed

lemma splitText_loop_long_text_stuck:
  "splitText_loop 500 100 long_text (- 97) chunks = None"
proof (rule splitText_loop_no_progress)
  show "- 97 < int (length long_text)" by (simp add: long_text_def)
  show "chunk_end 500 long_text (- 97) - 100 = - 97" by (simp add: chunk_end_long_text)
qed

lemma splitText_router_configuration:
  "splitText 500 100 long_text = None"
proof -
  have "int (length long_text) = 603" by (simp add: long_text_def)
  then have "splitText_loop 500 100 long_text 0 [] = None"
    by (subst splitText_loop.simps)
      (simp add: chunk_end_long_text splitText_loop_long_text_stuck)
  then show ?thesis by (simp add: splitText_def)
qed

section \<open>Properties of the conversation context manager\<close>

lemma js_slice_from_neg:
  "0 < m \<Longrightarrow> js_slice_from xs (- m) = drop (length xs - nat m) xs"
  by (auto simp: js_slice_from_def js_slice_def Let_def max_def nat_diff_distrib' nat_add_distrib)

lemma js_slice_zero_zero: "js_slice xs 0 0 = []"
  by (simp add: js_slice_def)

lemma js_slice_zero_neg:
  "0 < e \<Longrightarrow> js_slice xs 0 (- e) = take (length xs - nat e) xs"
  by (auto simp: js_slice_def Let_def max_def nat_diff_distrib')






lemma getRecentContext_zero: "getRecentContext sessionId 0 svc = []"
  by (simp add: getRecentContext_def js_slice_zero_zero js_slice_from_def js_slice_def split: option.splits)

lemma getRecentContext_pos:
  "conversations svc sessionId = Some conversation \<Longrightarrow> 0 < excludeLast \<Longrightarrow> 0 < maxContextLength svc \<Longrightarrow>
   getRecentContext sessionId excludeLast svc =
     (let kept = take (length (messages conversation) - nat excludeLast) (messages conversation)
      in drop (length kept - nat (maxContextLength svc)) kept)"
  by (simp add: getRecentContext_def js_slice_zero_neg js_slice_from_neg Let_def)

text \<open>
  C3. For a known session, \<open>getRecentContext(sessionId, excludeLast)\<close> returns the last
  \<open>maxContextLength\<close> messages after dropping exactly the last \<open>excludeLast\<close>; with
  \<open>excludeLast = 0\<close> it drops nothing and returns the window that \<open>getContext\<close> without preamble
  returns. The code returns the empty list for \<open>excludeLast = 0\<close>, because \<^verbatim>\<open>slice(0, -0)\<close> is
  \<^verbatim>\<open>slice(0, 0)\<close>: here for a session of two messages, which \<open>getContext\<close> returns in full.
\<close>

theorem getRecentContext_zero_returns_nothing:
  "getRecentContext ''s1'' 0 (service_with example_messages) = []
   \<and> fst (getContext 1700000000001 ''s1'' False (service_with example_messages)) = example_messages"
  by (simp add: getRecentContext_zero getContext_def service_with_def new_context_service_def
      js_slice_from_neg example_messages_def)

text \<open>
  C10. \<open>getContext\<close> with the system preamble requested: for an unknown session id it returns
  exactly one synthesised message, of role \<open>system\<close>; for a known session whose message list
  is empty it returns the empty list; the preamble is prepended only when the window of
  stored messages is not empty.
\<close>

theorem getContext_empty_boundary:
  "(conversations svc sessionId = None \<longrightarrow>
      fst (getContext now sessionId True svc) = [system_message now]
      \<and> role (system_message now) = ''system'')
   \<and> (\<forall>conversation. conversations svc sessionId = Some conversation \<longrightarrow>
        (messages conversation = [] \<longrightarrow> fst (getContext now sessionId True svc) = [])
        \<and> fst (getContext now sessionId True svc) =
            (let window = js_slice_from (messages conversation) (- maxContextLength svc)
             in if window = [] then [] else system_message now # window))"
  by (auto simp: getContext_def Let_def system_message_def js_slice_from_def js_slice_def)

text \<open>The three cases at concrete services: an unknown session, an empty session, and a
  session of two messages.\<close>

theorem getContext_empty_boundary_witness:
  "fst (getContext 5 ''ghost'' True new_context_service) = [system_message 5]
   \<and> fst (getContext 5 ''s1'' True (service_with [])) = []
   \<and> fst (getContext 5 ''s1'' True (service_with example_messages)) = system_message 5 # example_messages"
  using getContext_empty_boundary [of new_context_service "''ghost''" 5]
    getContext_empty_boundary [of "service_with []" "''s1''" 5]
    getContext_empty_boundary [of "service_with example_messages" "''s1''" 5]
  by (simp add: new_context_service_def service_with_def js_slice_from_neg example_messages_def)




lemma trim_tokens_short: "length msgs \<le> 2 \<Longrightarrow> trim_tokens budget msgs = msgs"
  by (subst trim_tokens.simps) simp

lemma trimmed_config:
  "trimmed (svc\<lparr>conversations := cs\<rparr>) msgs = trimmed svc msgs"
  by (simp add: trimmed_def)


lemma addMessage_unknown:
  assumes "conversations svc sessionId = None" "sessionId \<noteq> []"
  shows "addMessage session_uuid uuid now sessionId r text metadata svc =
     Inr (\<lparr>message_id = Some uuid, role = r, message_content = text, timestamp = now,
            message_metadata = Some metadata\<rparr>,
          svc\<lparr>conversations := (conversations svc)
            (sessionId \<mapsto> \<lparr>messages = trimmed svc
                 [\<lparr>message_id = Some uuid, role = r, message_content = text, timestamp = now,
                   message_metadata = Some metadata\<rparr>],
               createdAt = now, lastAccessed = now\<rparr>)\<rparr>)"
  using assms
  by (simp add: addMessage_def trimConversation_def Let_def trimmed_config createSession_def
      string_or_def)










lemma trimmed_single:
  "0 \<le> maxContextLength svc \<Longrightarrow> trimmed svc [m] = [m]"
  by (auto simp: trimmed_def trim_tokens_short js_slice_from_def js_slice_def Let_def)

text \<open>
  C9, as amended. For every non-empty session id that the manager does not know, and a count
  cap that is not negative, \<open>addMessage\<close> succeeds, creates the session and appends the
  message: \<open>getConversationStats\<close> then reports one message.
\<close>

theorem addMessage_auto_creates:
  assumes "sessionId \<noteq> []" and "conversations svc sessionId = None"
    and "0 \<le> maxContextLength svc"
  shows "\<exists>message svc'.
     addMessage session_uuid uuid now sessionId r text metadata svc = Inr (message, svc')
     \<and> role message = r \<and> message_content message = text
     \<and> messages_of svc' sessionId = [message]
     \<and> map_option messageCount (getConversationStats sessionId svc') = Some 1"
  using assms
  by (simp add: addMessage_unknown trimmed_config trimmed_single messages_of_def
      getConversationStats_def)

text \<open>The auto-creation of the session \<open>ghost\<close> in a new service.\<close>

theorem addMessage_auto_creates_witness:
  "\<exists>message svc'.
     addMessage ''2f1c'' ''9b7e'' 1700000000000 ''ghost'' ''user'' ''What is a cat?'' (JObj [])
       new_context_service = Inr (message, svc')
     \<and> role message = ''user'' \<and> message_content message = ''What is a cat?''
     \<and> messages_of svc' ''ghost'' = [message]
     \<and> map_option messageCount (getConversationStats ''ghost'' svc') = Some 1"
  using addMessage_auto_creates [of "''ghost''" new_context_service "''2f1c''" "''9b7e''"
      1700000000000 "''user''" "''What is a cat?''" "JObj []"]
  by (simp add: new_context_service_def)

text \<open>
  C9 as stated fails for the empty session id: \<open>createSession\<close> takes the empty string for a
  missing id and stores the session under a fresh uuid, so the lookup of the empty id that
  follows finds nothing, and \<^verbatim>\<open>conversation.messages\<close> throws.
\<close>

theorem addMessage_empty_id_throws:
  "addMessage ''2f1c'' ''9b7e'' 1700000000000 [] ''user'' ''What is a cat?'' (JObj [])
     new_context_service = Inl TypeError"
  by (simp add: addMessage_def createSession_def string_or_def new_context_service_def Let_def)

text \<open>With a negative count cap the message just appended is trimmed away at once.\<close>

lemma addMessage_negative_window:
  "messages_of (snd (projr (addMessage ''2f1c'' ''9b7e'' 1700000000000 ''ghost'' ''user'' ''What is a cat?'' (JObj [])
     (new_context_service\<lparr>maxContextLength := - 1\<rparr>)))) ''ghost'' = []"
  by (simp add: addMessage_unknown new_context_service_def trimmed_def messages_of_def
     js_slice_from_def js_slice_def trim_tokens_short)

section \<open>Properties of the answer orchestrator\<close>

text \<open>The prompt does not depend on the session at all.\<close>

lemma answerQuestion_prompt_ignores_session:
  "answerQuestion_prompt svc relevantDocs question sessionId =
     buildPrompt question [documentContext_of relevantDocs]"
  by (simp add: answerQuestion_prompt_def generateResponse_prompt_def js_param_def Let_def)

lemma example_summary:
  "getConversationSummary ''s1'' (service_with example_messages) =
     ''Recent conversation context:\<newline>user: What is a cat?\<newline>assistant: Cats are mammals.''"
  by (simp add: getConversationSummary_def service_with_def new_context_service_def
      example_messages_def message_of_def example_call_def js_slice_from_def js_slice_def Let_def)

text \<open>
  C2. For a question asked with the id of a session whose rolling summary is not empty, the
  prompt sent to the chat model contains the conversation-summary block. In the code
  \<open>answerQuestion\<close> passes the summary as a third argument to \<open>generateResponse\<close>, which has two
  parameters and builds the prompt from the query and the document context only: for the
  session \<open>s1\<close> of two messages the summary is not empty and is no part of the prompt.
\<close>

theorem answerQuestion_prompt_omits_summary:
  "getConversationSummary ''s1'' (service_with example_messages) \<noteq> []
   \<and> \<not> sublist (getConversationSummary ''s1'' (service_with example_messages))
        (answerQuestion_prompt (service_with example_messages) [] ''Are dogs mammals too?''
           (Some ''s1''))"
  unfolding example_summary answerQuestion_prompt_ignores_session
  by code_simp

section \<open>Properties of the similarity metric\<close>















section \<open>Properties of the sort and of the search\<close>
























lemma similarity_search_upstream_failure:
  "embeddings store \<noteq> [] \<Longrightarrow> generateEmbedding query = None \<Longrightarrow>
   similarity_search fl arraySort generateEmbedding store query k = Inl UpstreamServiceFailure"
  by (simp add: similarity_search_def)
















section \<open>Properties of persistence and of record ids\<close>

text \<open>Reading back what \<^verbatim>\<open>saveToStorage\<close> wrote.\<close>

lemma as_strings_JStr: "as_strings (JArr (map JStr xs)) = Some xs"
proof -
  have "those (map as_string (map JStr xs)) = Some xs"
    by (induction xs) simp_all
  then show ?thesis by (simp add: as_strings_def)
qed

lemma as_vector_JNum: "as_vector (JArr (map JNum e)) = Some e"
proof -
  have "those (map as_number (map JNum e)) = Some e"
    by (induction e) simp_all
  then show ?thesis by (simp add: as_vector_def)
qed

lemma as_vectors_JArr: "as_vectors (JArr (map (\<lambda>e. JArr (map JNum e)) es)) = Some es"
proof -
  have "those (map as_vector (map (\<lambda>e. JArr (map JNum e)) es)) = Some es"
    by (induction es) (simp_all add: as_vector_JNum)
  then show ?thesis by (simp add: as_vectors_def)
qed

lemma loadFromStorage_saveToStorage:
  "loadFromStorage fresh (Some (saveToStorage store)) =
     Some \<lparr>documents = documents store, embeddings = embeddings store,
           metadatas = metadatas store, ids = ids store,
           collectionName =
             (if collectionName store = [] then collectionName fresh else collectionName store)\<rparr>"
  by (simp add: loadFromStorage_def saveToStorage_def field_or_def as_strings_JStr as_vectors_JArr)

lemma similarity_search_fields:
  "documents s = documents t \<Longrightarrow> embeddings s = embeddings t \<Longrightarrow> metadatas s = metadatas t \<Longrightarrow>
   similarity_search fl arraySort g s query k = similarity_search fl arraySort g t query k"
proof -
  assume a: "documents s = documents t" "embeddings s = embeddings t" "metadatas s = metadatas t"
  then have "scored_results fl s q = scored_results fl t q" for q
    by (simp add: scored_results_def result_at_def)
  with a show ?thesis by (simp add: similarity_search_def split: option.splits)
qed

text \<open>
  C8. A fresh store that loads the snapshot \<open>saveToStorage\<close> wrote of a store holds the same
  documents, embeddings, metadata and ids, and \<open>similarity_search\<close> on it returns what it
  returns on the store saved, for every query and every \<open>k\<close>, whatever the rounding and the
  sort.
\<close>

theorem storage_round_trip:
  "\<exists>loaded. loadFromStorage fresh (Some (saveToStorage store)) = Some loaded
     \<and> documents loaded = documents store \<and> embeddings loaded = embeddings store
     \<and> metadatas loaded = metadatas store \<and> ids loaded = ids store
     \<and> similarity_search fl arraySort generateEmbedding loaded query k =
         similarity_search fl arraySort generateEmbedding store query k"
proof -
  let ?loaded = "\<lparr>documents = documents store, embeddings = embeddings store,
           metadatas = metadatas store, ids = ids store,
           collectionName =
             (if collectionName store = [] then collectionName fresh else collectionName store)\<rparr>"
  have load: "loadFromStorage fresh (Some (saveToStorage store)) = Some ?loaded"
    by (rule loadFromStorage_saveToStorage)
  have "similarity_search fl arraySort generateEmbedding ?loaded query k =
      similarity_search fl arraySort generateEmbedding store query k"
    by (rule similarity_search_fields) simp_all
  with load show ?thesis by simp
qed

text \<open>One call of \<open>addDocuments\<close> with one document.\<close>

lemma generateEmbeddings_single:
  "generateEmbeddings g [t] = map_option (\<lambda>e. [e]) (g t)"
  by (simp add: generateEmbeddings.simps [of g "[t]"] generateEmbeddings.simps [of g "[]"]
      split: option.splits)

lemma addDocuments_single:
  "g (content doc) = Some e \<Longrightarrow>
   addDocuments g clock [doc] store =
     Inr (store\<lparr>documents := documents store @ [content doc],
                embeddings := embeddings store @ [e],
                metadatas := metadatas store @ [metadata_of doc],
                ids := ids store @ [''doc_'' @ show_nat (clock 0) @ ''_'' @ show_nat 0]\<rparr>,
          saveToStorage (store\<lparr>documents := documents store @ [content doc],
                embeddings := embeddings store @ [e],
                metadatas := metadatas store @ [metadata_of doc],
                ids := ids store @ [''doc_'' @ show_nat (clock 0) @ ''_'' @ show_nat 0]\<rparr>))"
  by (simp add: addDocuments_def generateEmbeddings_single Let_def)

lemma show_nat_example: "show_nat 1700000000000 = ''1700000000000''"
  by (simp add: show_nat.simps)

lemma show_nat_0: "show_nat 0 = ''0''"
  by (simp add: show_nat.simps)

text \<open>
  C4. No two records of the store ever share an id, also when they were added in different
  calls. The code builds the id from \<^verbatim>\<open>Date.now()\<close> and the index of the document within its
  call: two calls that read the same millisecond give their first documents the same id.
\<close>

theorem addDocuments_same_millisecond:
  "\<exists>store1 snapshot1 store2 snapshot2.
     addDocuments unit_embedding (\<lambda>index. 1700000000000) [cats] (new_store ''specialist-agent'')
       = Inr (store1, snapshot1)
     \<and> addDocuments unit_embedding (\<lambda>index. 1700000000000) [dogs] store1 = Inr (store2, snapshot2)
     \<and> ids store2 = [''doc_1700000000000_0'', ''doc_1700000000000_0'']
     \<and> \<not> distinct (ids store2)"
proof -
  have e: "unit_embedding t = Some [1, 0]" for t
    by (simp add: unit_embedding_def)
  define store1 where "store1 = (new_store ''specialist-agent'')
      \<lparr>documents := documents (new_store ''specialist-agent'') @ [content cats],
       embeddings := embeddings (new_store ''specialist-agent'') @ [[1, 0]],
       metadatas := metadatas (new_store ''specialist-agent'') @ [metadata_of cats],
       ids := ids (new_store ''specialist-agent'') @
         [''doc_'' @ show_nat 1700000000000 @ ''_'' @ show_nat 0]\<rparr>"
  define store2 where "store2 = store1
      \<lparr>documents := documents store1 @ [content dogs],
       embeddings := embeddings store1 @ [[1, 0]],
       metadatas := metadatas store1 @ [metadata_of dogs],
       ids := ids store1 @ [''doc_'' @ show_nat 1700000000000 @ ''_'' @ show_nat 0]\<rparr>"
  have first: "addDocuments unit_embedding (\<lambda>index. 1700000000000) [cats]
      (new_store ''specialist-agent'') = Inr (store1, saveToStorage store1)"
    unfolding store1_def
    by (rule addDocuments_single [of unit_embedding cats "[1, 0]" "\<lambda>index. 1700000000000"
        "new_store ''specialist-agent''", OF e])
  have second: "addDocuments unit_embedding (\<lambda>index. 1700000000000) [dogs] store1
      = Inr (store2, saveToStorage store2)"
    unfolding store2_def
    by (rule addDocuments_single [of unit_embedding dogs "[1, 0]" "\<lambda>index. 1700000000000"
        store1, OF e])
  have ids: "ids store2 = [''doc_1700000000000_0'', ''doc_1700000000000_0'']"
    by (simp add: store2_def store1_def new_store_def show_nat_example show_nat_0)
  then have dup: "\<not> distinct (ids store2)" by simp
  show ?thesis
    by (intro exI conjI) (rule first, rule second, rule ids, rule dup)
qed

end
